theory Spec2Isabelle
  imports Complex_Main "HOL-Library.Sublist" "HOL-Library.AList"
begin

section \<open>Data model\<close>

text \<open>
  The dashboard (\<^verbatim>\<open>app.py\<close>) fetches a JSON document, turns it into a pandas
  DataFrame with \<^verbatim>\<open>pd.json_normalize\<close>, and renders it. A parsed JSON document is the
  value \<^verbatim>\<open>json.loads\<close> returns: an object is a Python dict, kept here as an
  association list in insertion order. JSON numbers are kept as exact rationals: the
  difference between Python's \<^verbatim>\<open>int\<close> and \<^verbatim>\<open>float\<close> and the rounding of
  floating-point arithmetic are outside this development.
\<close>

datatype json =
    JNull
  | JBool bool
  | JNum rat
  | JStr string
  | JArr "json list"
  | JObj "(string \<times> json) list"

text \<open>
  A cell of a DataFrame. \<open>Null\<close> stands for every value \<^verbatim>\<open>isna\<close> accepts
  (\<^verbatim>\<open>None\<close>, \<^verbatim>\<open>NaN\<close>, \<^verbatim>\<open>NaT\<close>); \<open>Raw\<close> is a nested array kept as it is;
  \<open>Timestamp\<close> is what \<^verbatim>\<open>pd.to_datetime\<close> produces.
\<close>

datatype cell =
    Null
  | Num rat
  | Text string
  | Boolean bool
  | Raw "json list"
  | Timestamp int

datatype dtype = Numeric | BoolT | Object | Datetime

text \<open>
  A DataFrame in row order: the column labels with the dtype pandas stores for each, and
  the rows, each aligned with the labels. \<^verbatim>\<open>len(df)\<close> is the number of rows (a frame
  can have rows and no columns), \<^verbatim>\<open>df.columns\<close> the labels in order.
\<close>

record dataframe =
  schema :: "(string \<times> dtype) list"
  rows :: "cell list list"

definition columns :: "dataframe \<Rightarrow> string list" where
  "columns df = map fst (schema df)"

definition len :: "dataframe \<Rightarrow> nat" where
  "len df = length (rows df)"

text \<open>
  The invariant of a frame: the labels are distinct and every row has one cell per
  column. Normalization produces such frames, and the renderer keeps them so.
\<close>

definition wf_frame :: "dataframe \<Rightarrow> bool" where
  "wf_frame df \<longleftrightarrow>
     distinct (columns df) \<and> list_all (\<lambda>r. length r = length (schema df)) (rows df)"

section \<open>Strings\<close>

text \<open>
  \<^verbatim>\<open>str.lower\<close> on the letters that matter to the date heuristic: the ASCII capitals.
\<close>

definition lower_char :: "char \<Rightarrow> char" where
  "lower_char c =
     (case map_of (zip ''ABCDEFGHIJKLMNOPQRSTUVWXYZ'' ''abcdefghijklmnopqrstuvwxyz'') c of
        Some l \<Rightarrow> l
      | None \<Rightarrow> c)"

definition lower :: "string \<Rightarrow> string" where
  "lower s = map lower_char s"

text \<open>\<^verbatim>\<open>sub in s\<close>: \<open>sub\<close> occurs in \<open>s\<close> as a contiguous substring.\<close>

fun str_in :: "string \<Rightarrow> string \<Rightarrow> bool" where
  "str_in sub [] = (sub = [])"
| "str_in sub (c # cs) = (prefix sub (c # cs) \<or> str_in sub cs)"

text \<open>\<^verbatim>\<open>s.endswith(suf)\<close>, by comparing the reversed strings from the front.\<close>

definition endswith :: "string \<Rightarrow> string \<Rightarrow> bool" where
  "endswith s suf = prefix (rev suf) (rev s)"

section \<open>Date-axis detection\<close>

text \<open>
  \<^verbatim>\<open>
  def detect_date_column(df):
      for col in df.columns:
          if "date" in col.lower() or col.lower().endswith("dt"):
              return col
      return None
  \<close>
\<close>

definition is_date_name :: "string \<Rightarrow> bool" where
  "is_date_name col \<longleftrightarrow> str_in ''date'' (lower col) \<or> endswith (lower col) ''dt''"

fun detect_loop :: "string list \<Rightarrow> string option" where
  "detect_loop [] = None"
| "detect_loop (col # rest) = (if is_date_name col then Some col else detect_loop rest)"

definition detect_date_column :: "dataframe \<Rightarrow> string option" where
  "detect_date_column df = detect_loop (columns df)"

section \<open>Normalization: \<^verbatim>\<open>pd.json_normalize\<close>\<close>

text \<open>
  \<^verbatim>\<open>fetch_data\<close> hands the parsed payload to \<^verbatim>\<open>pd.json_normalize(payload)\<close> with no
  other argument. pandas then takes its plain path: every element of the top-level array
  is flattened by \<^verbatim>\<open>_normalise_json_ordered\<close>, and the list of flat dicts is given to the
  \<^verbatim>\<open>DataFrame\<close> constructor.

  \<^verbatim>\<open>
  def _normalise_json(data, key_string, normalized_dict, separator):
      if isinstance(data, dict):
          for key, value in data.items():
              new_key = f"{key_string}{separator}{key}"
              if not key_string:
                  new_key = new_key.removeprefix(separator)
              _normalise_json(value, new_key, normalized_dict, separator)
      else:
          normalized_dict[key_string] = data
      return normalized_dict
  \<close>
  A Python dict keeps a key at the place of its first insertion and takes the last value
  stored under it, which is what \<open>AList.update\<close> does on an association list.
\<close>

definition new_key :: "string \<Rightarrow> string \<Rightarrow> string" where
  "new_key key_string key = (if key_string = [] then key else key_string @ ''.'' @ key)"

fun normalise_json :: "json \<Rightarrow> string \<Rightarrow> (string \<times> json) list \<Rightarrow> (string \<times> json) list" where
  "normalise_json (JObj items) key_string normalized_dict =
     fold (\<lambda>kv acc. normalise_json (snd kv) (new_key key_string (fst kv)) acc)
       items normalized_dict"
| "normalise_json data key_string normalized_dict = AList.update key_string data normalized_dict"

fun is_dict :: "json \<Rightarrow> bool" where
  "is_dict (JObj items) = True"
| "is_dict data = False"

text \<open>\<^verbatim>\<open>{**a, **b}\<close>: the entries of \<open>a\<close>, then those of \<open>b\<close> stored over them.\<close>

definition dict_merge :: "(string \<times> json) list \<Rightarrow> (string \<times> json) list \<Rightarrow> (string \<times> json) list" where
  "dict_merge a b = fold (\<lambda>kv acc. AList.update (fst kv) (snd kv) acc) b a"

text \<open>
  \<^verbatim>\<open>
  def _normalise_json_ordered(data, separator):
      top_dict_ = {k: v for k, v in data.items() if not isinstance(v, dict)}
      nested_dict_ = _normalise_json(
          data={k: v for k, v in data.items() if isinstance(v, dict)},
          key_string="", normalized_dict={}, separator=separator)
      return {**top_dict_, **nested_dict_}
  \<close>
\<close>

definition normalise_json_ordered :: "(string \<times> json) list \<Rightarrow> (string \<times> json) list" where
  "normalise_json_ordered data =
     (let top_dict = filter (\<lambda>kv. \<not> is_dict (snd kv)) data;
          nested_dict = normalise_json (JObj (filter (\<lambda>kv. is_dict (snd kv)) data)) [] []
      in dict_merge top_dict nested_dict)"

text \<open>
  One element of the top-level array, as \<^verbatim>\<open>_simple_json_normalize\<close> treats it: a dict
  is flattened, a scalar becomes the empty dict. An array nested directly in the
  top-level array sends pandas into its positional list-of-lists construction, with
  integer column labels; that part of pandas is not modelled: \<open>None\<close> here, and
  \<open>NestedArrayNotModelled\<close> (which is no Python exception) as the result of
  normalization.
\<close>

fun simple_json_normalize_row :: "json \<Rightarrow> (string \<times> json) list option" where
  "simple_json_normalize_row (JObj items) = Some (normalise_json_ordered items)"
| "simple_json_normalize_row (JArr xs) = None"
| "simple_json_normalize_row scalar = Some []"

fun cell_of :: "json \<Rightarrow> cell" where
  "cell_of JNull = Null"
| "cell_of (JBool b) = Boolean b"
| "cell_of (JNum r) = Num r"
| "cell_of (JStr s) = Text s"
| "cell_of (JArr xs) = Raw xs"
| "cell_of (JObj items) = Raw [JObj items]"

text \<open>
  The last equation is never used on a normalized record: flattening leaves no dict among
  the values.
\<close>

text \<open>
  The \<^verbatim>\<open>DataFrame\<close> constructor on a list of dicts. The columns are the keys of all the
  dicts in the order of their first appearance; a dict that lacks a key gets \<^verbatim>\<open>NaN\<close>
  there. The dtype of a column is inferred from its cells: numbers, with or without
  missing values, make a numeric column; booleans alone a boolean one; anything else
  (a string or a nested array among the cells, or no number at all) leaves the column
  with dtype \<^verbatim>\<open>object\<close>. Nothing is coerced: a string that spells a number stays a
  string.
\<close>

definition union_keys :: "(string \<times> json) list list \<Rightarrow> string list" where
  "union_keys records =
     fold (\<lambda>k acc. if k \<in> set acc then acc else acc @ [k]) (concat (map (map fst) records)) []"

definition record_cell :: "(string \<times> json) list \<Rightarrow> string \<Rightarrow> cell" where
  "record_cell d c = (case map_of d c of None \<Rightarrow> Null | Some v \<Rightarrow> cell_of v)"

fun is_num :: "cell \<Rightarrow> bool" where
  "is_num (Num r) = True"
| "is_num c = False"

fun is_bool :: "cell \<Rightarrow> bool" where
  "is_bool (Boolean b) = True"
| "is_bool c = False"

definition infer_dtype :: "cell list \<Rightarrow> dtype" where
  "infer_dtype cs =
     (if list_all (\<lambda>c. is_num c \<or> c = Null) cs \<and> list_ex is_num cs then Numeric
      else if cs \<noteq> [] \<and> list_all is_bool cs then BoolT
      else Object)"

definition DataFrame :: "(string \<times> json) list list \<Rightarrow> dataframe" where
  "DataFrame records =
     (let cols = union_keys records in
      \<lparr>schema = map (\<lambda>c. (c, infer_dtype (map (\<lambda>d. record_cell d c) records))) cols,
       rows = map (\<lambda>d. map (record_cell d) cols) records\<rparr>)"

datatype request_failure = ConnectionFailed | TimedOut

datatype error =
    RequestException request_failure
  | HTTPError nat
  | JSONDecodeError
  | NotImplementedError
  | NestedArrayNotModelled
  | KeyError string
  | DuplicateWidgetID string

text \<open>
  \<^verbatim>\<open>
  def json_normalize(data, ...):
      if isinstance(data, list) and not data:
          return DataFrame()
      elif isinstance(data, dict):
          data = [data]
      elif isinstance(data, abc.Iterable) and not isinstance(data, str):
          data = list(data)
      else:
          raise NotImplementedError
      ...
      return DataFrame(_simple_json_normalize(data, sep=sep))
  \<close>
  \<open>those\<close> is \<open>None\<close> as soon as one element is outside the model.
\<close>

definition normalize_list :: "json list \<Rightarrow> error + dataframe" where
  "normalize_list data =
     (case those (map simple_json_normalize_row data) of
        None \<Rightarrow> Inl NestedArrayNotModelled
      | Some records \<Rightarrow> Inr (DataFrame records))"

fun json_normalize :: "json \<Rightarrow> error + dataframe" where
  "json_normalize (JArr data) =
     (if data = [] then Inr \<lparr>schema = [], rows = []\<rparr> else normalize_list data)"
| "json_normalize (JObj items) = normalize_list [JObj items]"
| "json_normalize scalar = Inl NotImplementedError"

text \<open>The value of a row under a column label.\<close>

definition cell_at :: "string list \<Rightarrow> cell list \<Rightarrow> string \<Rightarrow> cell" where
  "cell_at cols r c = (case map_of (zip cols r) c of None \<Rightarrow> Null | Some v \<Rightarrow> v)"




section \<open>Frame operations used by the renderer\<close>

text \<open>
  \<^verbatim>\<open>df.select_dtypes(include="number").columns.tolist()\<close>: the labels of the columns
  whose stored dtype is numeric, in column order. The test reads the dtype alone.
\<close>

definition numeric_cols :: "dataframe \<Rightarrow> string list" where
  "numeric_cols df = map fst (filter (\<lambda>cd. snd cd = Numeric) (schema df))"

text \<open>\<^verbatim>\<open>df[label]\<close>: the cells of one column, in row order.\<close>

definition column :: "dataframe \<Rightarrow> string \<Rightarrow> cell list" where
  "column df label = map (\<lambda>r. cell_at (columns df) r label) (rows df)"

text \<open>
  \<^verbatim>\<open>pd.to_datetime(values, errors="coerce")\<close>. How pandas reads one value as a time is
  left open: \<open>parse\<close> is given the whole column, since pandas settles the format on the
  column, and the value. A missing value stays missing; a value that does not parse
  becomes \<^verbatim>\<open>NaT\<close> instead of raising.
\<close>

definition to_datetime :: "(cell list \<Rightarrow> cell \<Rightarrow> int option) \<Rightarrow> cell list \<Rightarrow> cell list" where
  "to_datetime parse values =
     map (\<lambda>c. if c = Null then Null
              else (case parse values c of None \<Rightarrow> Null | Some t \<Rightarrow> Timestamp t)) values"

text \<open>
  \<^verbatim>\<open>df[label] = values\<close> for a label the frame has: the column's cells are replaced
  row by row and its dtype becomes that of the new values. This changes \<open>df\<close> itself.
\<close>

definition set_column :: "dataframe \<Rightarrow> string \<Rightarrow> dtype \<Rightarrow> cell list \<Rightarrow> dataframe" where
  "set_column df label t values =
     \<lparr>schema = map (\<lambda>cd. if fst cd = label then (label, t) else cd) (schema df),
      rows = map (\<lambda>rv. map (\<lambda>cx. if fst cx = label then snd rv else snd cx)
                          (zip (columns df) (fst rv)))
                 (zip (rows df) values)\<rparr>"

text \<open>
  \<^verbatim>\<open>df.dropna(subset=labels)\<close>: a new frame with the rows that have no missing value
  under any of the labels; \<^verbatim>\<open>KeyError\<close> for a label the frame does not have.
\<close>

definition notna_at :: "dataframe \<Rightarrow> string list \<Rightarrow> cell list \<Rightarrow> bool" where
  "notna_at df labels r = list_all (\<lambda>c. cell_at (columns df) r c \<noteq> Null) labels"

definition dropna :: "dataframe \<Rightarrow> string list \<Rightarrow> error + dataframe" where
  "dropna df labels =
     (case filter (\<lambda>c. c \<notin> set (columns df)) labels of
        [] \<Rightarrow> Inr \<lparr>schema = schema df, rows = filter (notna_at df labels) (rows df)\<rparr>
      | c # cs \<Rightarrow> Inl (KeyError c))"

text \<open>\<^verbatim>\<open>df.head(n)\<close>: the first \<open>n\<close> rows.\<close>

definition head :: "dataframe \<Rightarrow> nat \<Rightarrow> dataframe" where
  "head df n = \<lparr>schema = schema df, rows = take n (rows df)\<rparr>"

section \<open>Descriptive statistics: \<^verbatim>\<open>describe\<close>\<close>

text \<open>
  \<^verbatim>\<open>df[numeric_cols].describe()\<close> summarizes each selected column over its values that
  are not missing: count, mean, sample standard deviation, minimum, the three quartiles
  by linear interpolation, maximum. An entry that does not exist (the mean of nothing,
  the deviation of fewer than two values) is \<^verbatim>\<open>NaN\<close>, here \<open>None\<close>. A datetime column
  is summarized over its timestamps and has no deviation.
\<close>

record stats =
  stat_count :: nat
  stat_mean :: "rat option"
  stat_std :: "real option"
  stat_min :: "rat option"
  stat_q25 :: "rat option"
  stat_q50 :: "rat option"
  stat_q75 :: "rat option"
  stat_max :: "rat option"

fun num_value :: "cell \<Rightarrow> rat option" where
  "num_value (Num r) = Some r"
| "num_value (Timestamp t) = Some (of_int t)"
| "num_value c = None"

definition mean_of :: "rat list \<Rightarrow> rat option" where
  "mean_of xs = (if xs = [] then None else Some (sum_list xs / of_nat (length xs)))"

definition std_of :: "rat list \<Rightarrow> real option" where
  "std_of xs =
     (if length xs < 2 then None
      else let m = sum_list xs / of_nat (length xs)
           in Some (sqrt (of_rat (sum_list (map (\<lambda>x. (x - m)\<^sup>2) xs) / of_nat (length xs - 1)))))"

definition quantile :: "rat \<Rightarrow> rat list \<Rightarrow> rat option" where
  "quantile q xs =
     (if xs = [] then None
      else let s = sort xs;
               h = q * of_nat (length xs - 1);
               lo = nat \<lfloor>h\<rfloor>;
               hi = min (lo + 1) (length xs - 1)
           in Some (s ! lo + (h - of_nat lo) * (s ! hi - s ! lo)))"

definition min_of :: "rat list \<Rightarrow> rat option" where
  "min_of xs = (case sort xs of [] \<Rightarrow> None | x # rest \<Rightarrow> Some x)"

definition max_of :: "rat list \<Rightarrow> rat option" where
  "max_of xs = (case rev (sort xs) of [] \<Rightarrow> None | x # rest \<Rightarrow> Some x)"

definition describe_values :: "bool \<Rightarrow> rat list \<Rightarrow> stats" where
  "describe_values with_std xs =
     \<lparr>stat_count = length xs,
      stat_mean = mean_of xs,
      stat_std = (if with_std then std_of xs else None),
      stat_min = min_of xs,
      stat_q25 = quantile (1 / 4) xs,
      stat_q50 = quantile (1 / 2) xs,
      stat_q75 = quantile (3 / 4) xs,
      stat_max = max_of xs\<rparr>"

definition describe_column :: "dataframe \<Rightarrow> string \<Rightarrow> stats" where
  "describe_column df label =
     describe_values (map_of (schema df) label \<noteq> Some Datetime)
       (List.map_filter num_value (column df label))"

definition describe :: "dataframe \<Rightarrow> string list \<Rightarrow> (string \<times> stats) list" where
  "describe df labels = map (\<lambda>c. (c, describe_column df c)) labels"

section \<open>The Streamlit page\<close>

text \<open>
  What the script shows is kept as the list of the elements it has put on the page. The
  texts of the page are in Ukrainian in the source; an element here carries what the
  text is built from. Streamlit also keeps the keys of the widgets created during the
  run, and refuses a second widget with a key that is already taken; \<open>selection\<close> is
  the session state: the index of the option the user has picked in the widget of a
  key, \<open>0\<close> when the user has not touched it.
\<close>

datatype chart =
    Line_chart string string dataframe
  | Bar_histogram string dataframe

datatype element =
    Subheader string
  | Counts nat nat
  | Selectbox string "string list"
  | Altair_chart chart
  | Info_no_numeric_fields
  | Stats_caption
  | Stats_table "(string \<times> stats) list"
  | Preview_caption
  | Preview dataframe
  | Error_load_failed string error
  | Info_select_dataset
  | Summary_heading
  | Summary_table "(string \<times> string \<times> nat \<times> nat \<times> nat) list"

record streamlit =
  page :: "element list"
  widget_keys :: "string list"
  selection :: "string \<Rightarrow> nat"

definition emit :: "element \<Rightarrow> streamlit \<Rightarrow> streamlit" where
  "emit e st = st\<lparr>page := page st @ [e]\<rparr>"

text \<open>
  \<^verbatim>\<open>st.selectbox(label, options, key=key)\<close>: the picked option, the first one by
  default; \<^verbatim>\<open>None\<close> when there is no option.
\<close>

definition picked_option :: "streamlit \<Rightarrow> string \<Rightarrow> string list \<Rightarrow> string option" where
  "picked_option st key options =
     (if options = [] then None
      else Some (options ! (if selection st key < length options then selection st key else 0)))"

definition selectbox :: "string list \<Rightarrow> string \<Rightarrow> streamlit \<Rightarrow> error + (string option \<times> streamlit)" where
  "selectbox options key st =
     (if key \<in> set (widget_keys st) then Inl (DuplicateWidgetID key)
      else Inr (picked_option st key options,
                (emit (Selectbox key options) st)\<lparr>widget_keys := key # widget_keys st\<rparr>))"

section \<open>Rendering one dataset\<close>

text \<open>
  \<^verbatim>\<open>
  def render_dataset(name, df):
      st.subheader(name)
      st.write(f"... {len(df):,} ... {len(df.columns)}")
      date_col = detect_date_column(df)
      numeric_cols = df.select_dtypes(include="number").columns.tolist()
      if date_col:
          df[date_col] = pd.to_datetime(df[date_col], errors="coerce")
          if numeric_cols:
              metric = st.selectbox(..., numeric_cols, key=f"metric_{name}")
              chart = alt.Chart(df.dropna(subset=[date_col, metric])).mark_line(...)...
              st.altair_chart(chart, ...)
          else:
              st.info(...)
      else:
          if numeric_cols:
              metric = st.selectbox(..., numeric_cols, key=f"dist_{name}")
              chart = alt.Chart(df.dropna(subset=[metric])).mark_bar()...
              st.altair_chart(chart, ...)
      if numeric_cols:
          st.write(...)
          st.dataframe(df[numeric_cols].describe().T, ...)
      st.write(...)
      st.dataframe(df.head(50), ...)
  \<close>
  The function returns nothing; what it leaves behind is the page and the frame \<open>df\<close>,
  which the assignment to \<^verbatim>\<open>df[date_col]\<close> changes in place. The result here is the
  exception that ended the call, if one did, with the page and the frame as they are
  then.
\<close>

type_synonym rendered = "error option \<times> streamlit \<times> dataframe"

definition truthy :: "string option \<Rightarrow> bool" where
  "truthy date_col = (case date_col of None \<Rightarrow> False | Some d \<Rightarrow> d \<noteq> [])"

text \<open>The chart of one branch: the selectbox, the rows without missing values, the chart.\<close>

definition draw_chart ::
    "string \<Rightarrow> string list \<Rightarrow> (string \<Rightarrow> string list) \<Rightarrow> (string \<Rightarrow> dataframe \<Rightarrow> chart)
       \<Rightarrow> dataframe \<Rightarrow> streamlit \<Rightarrow> rendered" where
  "draw_chart key options labels mark df st =
     (case selectbox options key st of
        Inl e \<Rightarrow> (Some e, st, df)
      | Inr (None, st1) \<Rightarrow> (Some (KeyError ''None''), st1, df)
      | Inr (Some metric, st1) \<Rightarrow>
          (case dropna df (labels metric) of
             Inl e \<Rightarrow> (Some e, st1, df)
           | Inr data \<Rightarrow> (None, emit (Altair_chart (mark metric data)) st1, df)))"

text \<open>\<^verbatim>\<open>df[date_col] = pd.to_datetime(df[date_col], errors="coerce")\<close>\<close>

definition assign_datetime :: "(cell list \<Rightarrow> cell \<Rightarrow> int option) \<Rightarrow> dataframe \<Rightarrow> string \<Rightarrow> dataframe" where
  "assign_datetime parse df d = set_column df d Datetime (to_datetime parse (column df d))"

definition render_chart :: "(cell list \<Rightarrow> cell \<Rightarrow> int option) \<Rightarrow> string \<Rightarrow> dataframe \<Rightarrow> streamlit \<Rightarrow> rendered" where
  "render_chart parse name df st =
     (let date_col = detect_date_column df;
          numeric_cols = numeric_cols df
      in if truthy date_col then
           (let d = the date_col;
                df1 = assign_datetime parse df d
            in if numeric_cols \<noteq> [] then
                 draw_chart (''metric_'' @ name) numeric_cols (\<lambda>metric. [d, metric])
                   (\<lambda>metric data. Line_chart d metric data) df1 st
               else (None, emit Info_no_numeric_fields st, df1))
         else if numeric_cols \<noteq> [] then
           draw_chart (''dist_'' @ name) numeric_cols (\<lambda>metric. [metric])
             (\<lambda>metric data. Bar_histogram metric data) df st
         else (None, st, df))"

definition render_dataset :: "(cell list \<Rightarrow> cell \<Rightarrow> int option) \<Rightarrow> string \<Rightarrow> dataframe \<Rightarrow> streamlit \<Rightarrow> rendered" where
  "render_dataset parse name df st =
     (let st1 = emit (Counts (len df) (length (columns df))) (emit (Subheader name) st);
          numeric_cols = numeric_cols df
      in case render_chart parse name df st1 of
           (Some e, st2, df1) \<Rightarrow> (Some e, st2, df1)
         | (None, st2, df1) \<Rightarrow>
             (let st3 = (if numeric_cols \<noteq> []
                         then emit (Stats_table (describe df1 numeric_cols)) (emit Stats_caption st2)
                         else st2)
              in (None, emit (Preview (head df1 50)) (emit Preview_caption st3), df1)))"

text \<open>The charts among the elements of a page.\<close>

fun charts :: "element list \<Rightarrow> chart list" where
  "charts [] = []"
| "charts (Altair_chart c # es) = c # charts es"
| "charts (e # es) = charts es"


section \<open>Fetching\<close>

text \<open>
  \<^verbatim>\<open>
  @st.cache_data(ttl=900)
  def fetch_data(url):
      response = requests.get(url, timeout=30)
      response.raise_for_status()
      text = response.text
      try:
          payload = response.json()
      except json.JSONDecodeError:
          payload = json.loads(text)
      df = pd.json_normalize(payload)
      return df, datetime.utcnow().strftime("%Y-%m-%d %H:%M UTC")
  \<close>
  A response carries its status, its body as text, and what \<^verbatim>\<open>response.json()\<close>
  makes of the body: a document, or \<open>None\<close> when it raises the decode error. The
  decoder \<^verbatim>\<open>json.loads\<close> and the network (\<^verbatim>\<open>requests.get\<close>, which answers or
  fails) are parameters. The time of the fetch is kept as the clock's reading, in
  seconds, not as the formatted text.
\<close>

record response =
  status_code :: nat
  body_text :: string
  json_body :: "json option"

definition raise_for_status :: "response \<Rightarrow> error option" where
  "raise_for_status r =
     (if 400 \<le> status_code r \<and> status_code r < 600 then Some (HTTPError (status_code r))
      else None)"

type_synonym fetched = "error + (dataframe \<times> nat)"

definition fetch_data ::
    "(string \<Rightarrow> json option) \<Rightarrow> (string \<Rightarrow> request_failure + response) \<Rightarrow> nat \<Rightarrow> string \<Rightarrow> fetched" where
  "fetch_data loads get now url =
     (case get url of
        Inl failure \<Rightarrow> Inl (RequestException failure)
      | Inr r \<Rightarrow>
          (case raise_for_status r of
             Some e \<Rightarrow> Inl e
           | None \<Rightarrow>
               (case (case json_body r of Some payload \<Rightarrow> Some payload | None \<Rightarrow> loads (body_text r)) of
                  None \<Rightarrow> Inl JSONDecodeError
                | Some payload \<Rightarrow>
                    (case json_normalize payload of
                       Inl e \<Rightarrow> Inl e
                     | Inr df \<Rightarrow> Inr (df, now)))))"




section \<open>The script\<close>













section \<open>Example documents and frames\<close>

definition ex_dates :: dataframe where
  "ex_dates =
     \<lparr>schema = [(''start_date'', Object), (''end_date'', Object), (''value'', Numeric)],
      rows = [[Text ''2024-01-01'', Text ''2024-02-01'', Num 1],
              [Text ''n/a'', Text ''2024-02-02'', Num 2],
              [Text ''2024-01-03'', Null, Null]]\<rparr>"

definition ex_dates_other :: dataframe where
  "ex_dates_other =
     \<lparr>schema = [(''start_date'', Numeric), (''end_date'', Numeric), (''value'', Object)],
      rows = [[Num 7, Null, Text ''x'']]\<rparr>"

definition ex_parse :: "cell list \<Rightarrow> cell \<Rightarrow> int option" where
  "ex_parse values c =
     (if c = Text ''2024-01-01'' then Some 1704067200
      else if c = Text ''2024-01-02'' then Some 1704153600
      else if c = Text ''2024-01-03'' then Some 1704240000
      else None)"

definition ex_page :: streamlit where
  "ex_page = \<lparr>page = [], widget_keys = [], selection = (\<lambda>key. 0)\<rparr>"



definition ex_rates :: dataframe where
  "ex_rates =
     \<lparr>schema = [(''date'', Object), (''rate'', Numeric)],
      rows = [[Text ''2024-01-01'', Num (55 / 2)],
              [Text ''n/a'', Num 28],
              [Text ''2024-01-03'', Null]]\<rparr>"

definition ex_amounts :: dataframe where
  "ex_amounts =
     \<lparr>schema = [(''bank'', Object), (''amount'', Numeric)],
      rows = [[Text ''A'', Num 1], [Text ''B'', Null], [Text ''C'', Num 3]]\<rparr>"





definition backslash :: string where
  "backslash = [CHR 0x5C]"

definition ex_inner_text :: string where
  \<open>ex_inner_text = ''[{"x": 1}]''\<close>

definition ex_outer_text :: string where
  \<open>ex_outer_text = ''"[{'' @ backslash @ ''"x'' @ backslash @ ''": 1}]"''\<close>

definition ex_inner_doc :: json where
  "ex_inner_doc = JArr [JObj [(''x'', JNum 1)]]"

text \<open>\<^verbatim>\<open>json.loads\<close> on the texts of the examples.\<close>

definition ex_loads :: "string \<Rightarrow> json option" where
  "ex_loads s =
     (if s = ex_inner_text then Some ex_inner_doc
      else if s = ex_outer_text then Some (JStr ex_inner_text)
      else None)"

definition ex_double_encoded :: response where
  "ex_double_encoded =
     \<lparr>status_code = 200, body_text = ex_outer_text, json_body = Some (JStr ex_inner_text)\<rparr>"

definition ex_html :: response where
  "ex_html = \<lparr>status_code = 200, body_text = ''<html></html>'', json_body = None\<rparr>"

definition ex_plain :: response where
  "ex_plain = \<lparr>status_code = 200, body_text = ex_inner_text, json_body = Some ex_inner_doc\<rparr>"












section \<open>Facts about strings and the detection loop\<close>

lemma str_in_iff: "str_in sub s \<longleftrightarrow> (\<exists>p q. s = p @ sub @ q)"
proof (induction s)
  case Nil
  then show ?case by auto
next
  case (Cons c cs)
  show ?case
  proof
    assume "str_in sub (c # cs)"
    then consider "prefix sub (c # cs)" | "str_in sub cs" by auto
    then show "\<exists>p q. c # cs = p @ sub @ q"
    proof cases
      case 1
      then obtain q where "c # cs = sub @ q" by (auto simp: prefix_def)
      then have "c # cs = [] @ sub @ q" by simp
      then show ?thesis by blast
    next
      case 2
      with Cons.IH obtain p q where "cs = p @ sub @ q" by blast
      then have "c # cs = (c # p) @ sub @ q" by simp
      then show ?thesis by blast
    qed
  next
    assume "\<exists>p q. c # cs = p @ sub @ q"
    then obtain p q where pq: "c # cs = p @ sub @ q" by blast
    show "str_in sub (c # cs)"
    proof (cases p)
      case Nil
      with pq have "prefix sub (c # cs)" by (simp add: prefix_def)
      then show ?thesis by simp
    next
      case (Cons a p')
      with pq have "cs = p' @ sub @ q" by simp
      with Cons.IH have "str_in sub cs" by blast
      then show ?thesis by simp
    qed
  qed
qed

lemma endswith_iff: "endswith s suf \<longleftrightarrow> (\<exists>p. s = p @ suf)"
proof -
  have "endswith s suf \<longleftrightarrow> suffix suf s"
    by (simp add: endswith_def suffix_to_prefix)
  then show ?thesis by (simp add: suffix_def)
qed

lemma detect_loop_None: "detect_loop cs = None \<longleftrightarrow> (\<forall>c \<in> set cs. \<not> is_date_name c)"
  by (induction cs) auto

lemma detect_loop_Some:
  "detect_loop cs = Some c \<longleftrightarrow>
     (\<exists>pre post. cs = pre @ c # post \<and> is_date_name c \<and> (\<forall>p \<in> set pre. \<not> is_date_name p))"
proof (induction cs)
  case Nil
  then show ?case by simp
next
  case (Cons a cs)
  show ?case
  proof (cases "is_date_name a")
    case True
    have "(\<exists>pre post. a # cs = pre @ c # post \<and> is_date_name c \<and> (\<forall>p \<in> set pre. \<not> is_date_name p))
          \<longleftrightarrow> a = c"
    proof
      assume "\<exists>pre post. a # cs = pre @ c # post \<and> is_date_name c \<and> (\<forall>p \<in> set pre. \<not> is_date_name p)"
      then obtain pre post where h: "a # cs = pre @ c # post" "\<forall>p \<in> set pre. \<not> is_date_name p"
        by blast
      show "a = c"
      proof (cases pre)
        case Nil
        with h show ?thesis by simp
      next
        case (Cons b pre')
        with h True show ?thesis by auto
      qed
    next
      assume "a = c"
      with True have "a # cs = [] @ c # cs \<and> is_date_name c \<and> (\<forall>p \<in> set []. \<not> is_date_name p)"
        by simp
      then show "\<exists>pre post. a # cs = pre @ c # post \<and> is_date_name c \<and> (\<forall>p \<in> set pre. \<not> is_date_name p)"
        by blast
    qed
    with True show ?thesis by simp
  next
    case False
    have "(\<exists>pre post. a # cs = pre @ c # post \<and> is_date_name c \<and> (\<forall>p \<in> set pre. \<not> is_date_name p))
          \<longleftrightarrow> (\<exists>pre post. cs = pre @ c # post \<and> is_date_name c \<and> (\<forall>p \<in> set pre. \<not> is_date_name p))"
    proof
      assume "\<exists>pre post. a # cs = pre @ c # post \<and> is_date_name c \<and> (\<forall>p \<in> set pre. \<not> is_date_name p)"
      then obtain pre post where h: "a # cs = pre @ c # post" "is_date_name c"
          "\<forall>p \<in> set pre. \<not> is_date_name p"
        by blast
      show "\<exists>pre post. cs = pre @ c # post \<and> is_date_name c \<and> (\<forall>p \<in> set pre. \<not> is_date_name p)"
      proof (cases pre)
        case Nil
        with h False show ?thesis by simp
      next
        case (Cons b pre')
        with h have "cs = pre' @ c # post \<and> is_date_name c \<and> (\<forall>p \<in> set pre'. \<not> is_date_name p)"
          by simp
        then show ?thesis by blast
      qed
    next
      assume "\<exists>pre post. cs = pre @ c # post \<and> is_date_name c \<and> (\<forall>p \<in> set pre. \<not> is_date_name p)"
      then obtain pre post where h: "cs = pre @ c # post" "is_date_name c"
          "\<forall>p \<in> set pre. \<not> is_date_name p"
        by blast
      with False have "a # cs = (a # pre) @ c # post \<and> is_date_name c
          \<and> (\<forall>p \<in> set (a # pre). \<not> is_date_name p)"
        by simp
      then show "\<exists>pre post. a # cs = pre @ c # post \<and> is_date_name c \<and> (\<forall>p \<in> set pre. \<not> is_date_name p)"
        by blast
    qed
    with False Cons.IH show ?thesis by simp
  qed
qed

section \<open>Facts about normalization\<close>
















section \<open>Facts about the renderer\<close>

lemma columns_set_column: "columns (set_column df label t values) = columns df"
  by (simp add: columns_def set_column_def comp_def)

lemma len_set_column:
  "length values = length (rows df) \<Longrightarrow> len (set_column df label t values) = len df"
  by (simp add: len_def set_column_def)

lemma length_column: "length (column df label) = length (rows df)"
  by (simp add: column_def)

lemma length_to_datetime: "length (to_datetime parse values) = length values"
  by (simp add: to_datetime_def)

lemma not_date_name_Nil: "\<not> is_date_name []"
  by (simp add: is_date_name_def lower_def endswith_def)

lemma detect_loop_in: "detect_loop cs = Some d \<Longrightarrow> d \<in> set cs \<and> is_date_name d"
  by (induction cs) (auto split: if_splits)

lemma detect_in_columns: "detect_date_column df = Some d \<Longrightarrow> d \<in> set (columns df)"
  by (simp add: detect_date_column_def detect_loop_in)

lemma detect_truthy: "detect_date_column df = Some d \<Longrightarrow> truthy (Some d)"
  using detect_loop_in [of "columns df" d] not_date_name_Nil
  by (auto simp: detect_date_column_def truthy_def)

lemma numeric_cols_subset: "set (numeric_cols df) \<subseteq> set (columns df)"
  by (auto simp: numeric_cols_def columns_def)

lemma picked_option_in:
  "options \<noteq> [] \<Longrightarrow> \<exists>m. picked_option st key options = Some m \<and> m \<in> set options"
  by (simp add: picked_option_def)


lemma dropna_ok:
  "set labels \<subseteq> set (columns df) \<Longrightarrow>
   dropna df labels = Inr \<lparr>schema = schema df, rows = filter (notna_at df labels) (rows df)\<rparr>"
proof -
  assume "set labels \<subseteq> set (columns df)"
  then have "filter (\<lambda>c. c \<notin> set (columns df)) labels = []"
    by (auto simp: filter_empty_conv)
  then show ?thesis by (simp add: dropna_def)
qed

lemma draw_chart_ok:
  assumes "key \<notin> set (widget_keys st)" "picked_option st key options = Some m"
    "set (labels m) \<subseteq> set (columns df)"
  shows "draw_chart key options labels mark df st =
     (None,
      emit (Altair_chart (mark m \<lparr>schema = schema df, rows = filter (notna_at df (labels m)) (rows df)\<rparr>))
        ((emit (Selectbox key options) st)\<lparr>widget_keys := key # widget_keys st\<rparr>),
      df)"
  using assms by (simp add: draw_chart_def selectbox_def dropna_ok)


lemma draw_chart_frame: "snd (snd (draw_chart key options labels mark df st)) = df"
  by (simp add: draw_chart_def split: sum.splits option.splits prod.splits)

lemma render_chart_frame:
  "snd (snd (render_chart parse name df st)) =
     (case detect_date_column df of
        None \<Rightarrow> df
      | Some d \<Rightarrow> assign_datetime parse df d)"
proof (cases "detect_date_column df")
  case None
  then show ?thesis
    by (simp add: render_chart_def Let_def truthy_def draw_chart_frame)
next
  case (Some d)
  with detect_truthy [OF Some] show ?thesis
    by (simp add: render_chart_def Let_def draw_chart_frame)
qed


lemma render_dataset_frame:
  "snd (snd (render_dataset parse name df st)) = snd (snd (render_chart parse name df
      (emit (Counts (len df) (length (columns df))) (emit (Subheader name) st))))"
  by (simp add: render_dataset_def Let_def split: prod.splits option.splits)

lemma charts_append: "charts (xs @ ys) = charts xs @ charts ys"
  by (induction xs rule: charts.induct) auto

lemma columns_assign_datetime: "columns (assign_datetime parse df d) = columns df"
  by (simp add: assign_datetime_def columns_set_column)

lemma schema_assign_datetime:
  "schema (assign_datetime parse df d) =
     map (\<lambda>cd. if fst cd = d then (d, Datetime) else cd) (schema df)"
  by (simp add: assign_datetime_def set_column_def)

lemma len_assign_datetime: "len (assign_datetime parse df d) = len df"
  by (simp add: assign_datetime_def len_set_column length_to_datetime length_column)

lemma map_of_replace:
  "map_of (zip cols (map (\<lambda>cx. if fst cx = d then v else snd cx) (zip cols r))) c =
     (case map_of (zip cols r) c of
        None \<Rightarrow> None
      | Some x \<Rightarrow> Some (if c = d then v else x))"
proof (induction cols arbitrary: r)
  case Nil
  then show ?case by simp
next
  case (Cons a cols)
  then show ?case by (cases r) auto
qed

lemma cell_at_replace_other:
  "c \<noteq> d \<Longrightarrow>
   cell_at cols (map (\<lambda>cx. if fst cx = d then v else snd cx) (zip cols r)) c = cell_at cols r c"
  by (simp add: cell_at_def map_of_replace split: option.splits)

lemma cell_at_replace_same:
  "d \<in> set cols \<Longrightarrow> length r = length cols \<Longrightarrow>
   cell_at cols (map (\<lambda>cx. if fst cx = d then v else snd cx) (zip cols r)) d = v"
proof -
  assume "d \<in> set cols" "length r = length cols"
  then have "d \<in> dom (map_of (zip cols r))" by simp
  then obtain x where "map_of (zip cols r) d = Some x" by blast
  then show ?thesis by (simp add: cell_at_def map_of_replace)
qed

lemma zip_map_self: "zip xs (map f xs) = map (\<lambda>x. (x, f x)) xs"
  by (induction xs) auto

lemma rows_assign_datetime:
  "rows (assign_datetime parse df d) =
     map (\<lambda>r. map (\<lambda>cx. if fst cx = d
                          then (if cell_at (columns df) r d = Null then Null
                                else (case parse (column df d) (cell_at (columns df) r d) of
                                        None \<Rightarrow> Null | Some t \<Rightarrow> Timestamp t))
                          else snd cx)
                  (zip (columns df) r))
         (rows df)"
  by (simp add: assign_datetime_def set_column_def to_datetime_def column_def zip_map_self comp_def)

lemma column_assign_other:
  "c \<noteq> d \<Longrightarrow> column (assign_datetime parse df d) c = column df c"
  by (simp add: column_def columns_assign_datetime)
     (simp add: rows_assign_datetime comp_def cell_at_replace_other)

lemma column_assign_same:
  assumes "wf_frame df" "d \<in> set (columns df)"
  shows "column (assign_datetime parse df d) d = to_datetime parse (column df d)"
proof -
  have len: "\<forall>r \<in> set (rows df). length r = length (columns df)"
    using assms(1) by (simp add: wf_frame_def list_all_iff columns_def)
  have "map (\<lambda>r. cell_at (columns df) r d) (rows (assign_datetime parse df d)) =
        map (\<lambda>r. if cell_at (columns df) r d = Null then Null
                 else (case parse (column df d) (cell_at (columns df) r d) of
                         None \<Rightarrow> Null | Some t \<Rightarrow> Timestamp t)) (rows df)"
    unfolding rows_assign_datetime map_map comp_def
    by (rule map_cong) (simp_all add: cell_at_replace_same assms(2) len)
  then show ?thesis
    by (simp add: column_def columns_assign_datetime to_datetime_def comp_def)
qed


lemma notna_at_single: "notna_at df [a] = (\<lambda>r. cell_at (columns df) r a \<noteq> Null)"
  by (rule ext) (simp add: notna_at_def)



lemma render_dataset_histogram:
  assumes d: "detect_date_column df = None" and n: "numeric_cols df \<noteq> []"
    and k: "''dist_'' @ name \<notin> set (widget_keys st)"
    and m: "picked_option st (''dist_'' @ name) (numeric_cols df) = Some m"
  shows "fst (render_dataset parse name df st) = None"
    and "page (fst (snd (render_dataset parse name df st))) = page st @
      [Subheader name, Counts (len df) (length (columns df)),
       Selectbox (''dist_'' @ name) (numeric_cols df),
       Altair_chart (Bar_histogram m
         \<lparr>schema = schema df, rows = filter (notna_at df [m]) (rows df)\<rparr>),
       Stats_caption, Stats_table (describe df (numeric_cols df)),
       Preview_caption, Preview (head df 50)]"
proof -
  let ?st1 = "emit (Counts (len df) (length (columns df))) (emit (Subheader name) st)"
  have k1: "''dist_'' @ name \<notin> set (widget_keys ?st1)" using k by (simp add: emit_def)
  have "picked_option ?st1 (''dist_'' @ name) (numeric_cols df) =
        picked_option st (''dist_'' @ name) (numeric_cols df)"
    by (simp add: picked_option_def emit_def)
  with m have m1: "picked_option ?st1 (''dist_'' @ name) (numeric_cols df) = Some m"
    by simp
  from m n have "m \<in> set (numeric_cols df)"
    by (auto simp: picked_option_def split: if_splits)
  with numeric_cols_subset have sub: "set [m] \<subseteq> set (columns df)" by auto
  have rc: "render_chart parse name df ?st1 =
     (None,
      emit (Altair_chart (Bar_histogram m
          \<lparr>schema = schema df, rows = filter (notna_at df [m]) (rows df)\<rparr>))
        ((emit (Selectbox (''dist_'' @ name) (numeric_cols df)) ?st1)
           \<lparr>widget_keys := (''dist_'' @ name) # widget_keys ?st1\<rparr>),
      df)"
    using d n
      draw_chart_ok [OF k1 m1, where labels = "\<lambda>metric. [metric]", OF sub,
        of "\<lambda>metric data. Bar_histogram metric data"]
    by (simp add: render_chart_def Let_def truthy_def)
  have rd: "render_dataset parse name df st =
     (None,
      emit (Preview (head df 50)) (emit Preview_caption
        (emit (Stats_table (describe df (numeric_cols df))) (emit Stats_caption
          (emit (Altair_chart (Bar_histogram m
              \<lparr>schema = schema df, rows = filter (notna_at df [m]) (rows df)\<rparr>))
            ((emit (Selectbox (''dist_'' @ name) (numeric_cols df)) ?st1)
               \<lparr>widget_keys := (''dist_'' @ name) # widget_keys ?st1\<rparr>))))),
      df)"
    using n by (simp add: render_dataset_def Let_def rc)
  show "fst (render_dataset parse name df st) = None"
    by (simp add: rd)
  show "page (fst (snd (render_dataset parse name df st))) = page st @
      [Subheader name, Counts (len df) (length (columns df)),
       Selectbox (''dist_'' @ name) (numeric_cols df),
       Altair_chart (Bar_histogram m
         \<lparr>schema = schema df, rows = filter (notna_at df [m]) (rows df)\<rparr>),
       Stats_caption, Stats_table (describe df (numeric_cols df)),
       Preview_caption, Preview (head df 50)]"
    unfolding rd by (simp add: emit_def)
qed


section \<open>Facts about numeric columns and their summary\<close>













section \<open>Facts about fetching\<close>

lemma normalize_list_not_decode_error: "normalize_list data \<noteq> Inl JSONDecodeError"
  by (simp add: normalize_list_def split: option.splits)

lemma json_normalize_not_decode_error: "json_normalize payload \<noteq> Inl JSONDecodeError"
  by (cases payload) (simp_all add: normalize_list_not_decode_error)

lemma raise_for_status_not_decode_error: "raise_for_status r \<noteq> Some JSONDecodeError"
  by (simp add: raise_for_status_def)

lemma fetch_data_decode_error_iff:
  "fetch_data loads get now url = Inl JSONDecodeError \<longleftrightarrow>
     (\<exists>r. get url = Inr r \<and> raise_for_status r = None \<and> json_body r = None
          \<and> loads (body_text r) = None)"
proof (cases "get url")
  case (Inl failure)
  then show ?thesis by (simp add: fetch_data_def)
next
  case (Inr r)
  show ?thesis
  proof (cases "raise_for_status r")
    case (Some e)
    with Inr raise_for_status_not_decode_error [of r] show ?thesis
      by (auto simp: fetch_data_def)
  next
    case None
    with Inr json_normalize_not_decode_error show ?thesis
      by (auto simp: fetch_data_def split: option.splits sum.splits)
  qed
qed

section \<open>Facts about the cache\<close>





section \<open>Facts about the script\<close>


















section \<open>Facts about the examples\<close>

lemma ex_rates_detect: "detect_date_column ex_rates = Some ''date''"
  by (simp add: ex_rates_def detect_date_column_def columns_def is_date_name_def lower_def
      lower_char_def)


lemma ex_rates_assigned:
  "assign_datetime ex_parse ex_rates ''date'' =
     \<lparr>schema = [(''date'', Datetime), (''rate'', Numeric)],
      rows = [[Timestamp 1704067200, Num (55 / 2)],
              [Null, Num 28],
              [Timestamp 1704240000, Null]]\<rparr>"
  by (simp add: assign_datetime_def set_column_def to_datetime_def column_def columns_def
      cell_at_def ex_rates_def ex_parse_def)

lemma ex_amounts_detect: "detect_date_column ex_amounts = None"
  by (simp add: ex_amounts_def detect_date_column_def columns_def is_date_name_def lower_def
      lower_char_def endswith_def)

lemma ex_amounts_numeric: "numeric_cols ex_amounts = [''amount'']"
  by (simp add: ex_amounts_def numeric_cols_def)

lemma ex_rates_wf: "wf_frame ex_rates"
  by (simp add: wf_frame_def ex_rates_def columns_def)




















section \<open>Claims\<close>

text \<open>
  C3. Date-axis detection returns exactly the first column, in column order, whose
  lowercased name contains \<open>date\<close> or ends with \<open>dt\<close>: every column before it fails the
  test, later matches are ignored, and the result is \<open>None\<close> exactly when no column
  passes. Two frames with the same column labels get the same answer whatever their
  dtypes and cells are, and for the labels \<open>start_date, end_date, value\<close> the answer is
  \<open>start_date\<close>. The label returned is never empty, so the test \<^verbatim>\<open>if date_col:\<close> of
  the renderer holds exactly when a column was found.
\<close>

theorem detect_date_column_first_match:
  "(detect_date_column df = Some c \<longleftrightarrow>
      (\<exists>pre post. columns df = pre @ c # post \<and> is_date_name c
         \<and> (\<forall>p \<in> set pre. \<not> is_date_name p)))
   \<and> (detect_date_column df = None \<longleftrightarrow> (\<forall>k \<in> set (columns df). \<not> is_date_name k))
   \<and> (is_date_name k \<longleftrightarrow>
        (\<exists>p q. lower k = p @ ''date'' @ q) \<or> (\<exists>p. lower k = p @ ''dt''))
   \<and> (columns df = columns df' \<longrightarrow> detect_date_column df = detect_date_column df')
   \<and> (columns df = [''start_date'', ''end_date'', ''value'']
        \<longrightarrow> detect_date_column df = Some ''start_date'')
   \<and> (truthy (detect_date_column df) \<longleftrightarrow> detect_date_column df \<noteq> None)"
proof -
  have a: "detect_date_column df = Some c \<longleftrightarrow>
      (\<exists>pre post. columns df = pre @ c # post \<and> is_date_name c
         \<and> (\<forall>p \<in> set pre. \<not> is_date_name p))"
    unfolding detect_date_column_def by (rule detect_loop_Some)
  have b: "detect_date_column df = None \<longleftrightarrow> (\<forall>k \<in> set (columns df). \<not> is_date_name k)"
    unfolding detect_date_column_def by (rule detect_loop_None)
  have c: "is_date_name k \<longleftrightarrow>
        (\<exists>p q. lower k = p @ ''date'' @ q) \<or> (\<exists>p. lower k = p @ ''dt'')"
    by (simp add: is_date_name_def str_in_iff endswith_iff)
  have d: "columns df = columns df' \<longrightarrow> detect_date_column df = detect_date_column df'"
    by (simp add: detect_date_column_def)
  have "is_date_name ''start_date''"
    by (simp add: is_date_name_def lower_def lower_char_def)
  then have e: "columns df = [''start_date'', ''end_date'', ''value'']
        \<longrightarrow> detect_date_column df = Some ''start_date''"
    by (simp add: detect_date_column_def)
  have f: "truthy (detect_date_column df) \<longleftrightarrow> detect_date_column df \<noteq> None"
  proof (cases "detect_date_column df")
    case None
    then show ?thesis by (simp add: truthy_def)
  next
    case (Some x)
    with detect_truthy [OF Some] show ?thesis by simp
  qed
  from a b c d e f show ?thesis by blast
qed

theorem detect_date_column_first_match_witness:
  "columns ex_dates = columns ex_dates_other
   \<and> detect_date_column ex_dates = Some ''start_date''
   \<and> detect_date_column ex_dates_other = Some ''start_date''
   \<and> (\<exists>pre post. columns ex_dates = pre @ ''start_date'' # post \<and> is_date_name ''start_date''
         \<and> (\<forall>p \<in> set pre. \<not> is_date_name p))
   \<and> list_all (\<lambda>k. \<not> is_date_name k) (columns ex_amounts)
   \<and> detect_date_column ex_amounts = None
   \<and> is_date_name ''Valid_DT'' \<and> (\<exists>p. lower ''Valid_DT'' = p @ ''dt'')
   \<and> is_date_name ''update''"
proof -
  have c: "columns ex_dates = [''start_date'', ''end_date'', ''value'']"
    by (simp add: ex_dates_def columns_def)
  have c': "columns ex_dates = columns ex_dates_other"
    by (simp add: ex_dates_def ex_dates_other_def columns_def)
  note t = detect_date_column_first_match [of ex_dates "''start_date''" "''value''" ex_dates_other]
  from t c have s: "detect_date_column ex_dates = Some ''start_date''" by blast
  from t c' s have s': "detect_date_column ex_dates_other = Some ''start_date''" by simp
  from t s have e: "\<exists>pre post. columns ex_dates = pre @ ''start_date'' # post
      \<and> is_date_name ''start_date'' \<and> (\<forall>p \<in> set pre. \<not> is_date_name p)"
    by blast
  have a: "list_all (\<lambda>k. \<not> is_date_name k) (columns ex_amounts)"
    by (simp add: ex_amounts_def columns_def is_date_name_def lower_def lower_char_def endswith_def)
  note t2 = detect_date_column_first_match [of ex_amounts "''bank''" "''Valid_DT''" ex_amounts]
  from t2 a have n: "detect_date_column ex_amounts = None" by (simp add: list_all_iff)
  have v: "is_date_name ''Valid_DT''"
    by (simp add: is_date_name_def lower_def lower_char_def endswith_def)
  with t2 have "(\<exists>p q. lower ''Valid_DT'' = p @ ''date'' @ q) \<or> (\<exists>p. lower ''Valid_DT'' = p @ ''dt'')"
    by blast
  moreover have "\<not> (\<exists>p q. lower ''Valid_DT'' = p @ ''date'' @ q)"
  proof -
    have "\<not> str_in ''date'' (lower ''Valid_DT'')" by (simp add: lower_def lower_char_def)
    then show ?thesis by (simp add: str_in_iff)
  qed
  ultimately have w: "\<exists>p. lower ''Valid_DT'' = p @ ''dt''" by blast
  have u: "is_date_name ''update''"
    by (simp add: is_date_name_def lower_def lower_char_def endswith_def)
  from c' s s' e a n v w u show ?thesis by blast
qed





text \<open>
  C9, as amended. Normalization of the empty array \<open>[]\<close> returns a table with no row and
  no column, and raises nothing. Normalization of the empty object \<open>{}\<close> raises nothing
  either and returns a table with no column and one row: the object is wrapped into a
  one-element list, and every element of the list is a row.
\<close>

theorem json_normalize_empty:
  "json_normalize (JArr []) = Inr \<lparr>schema = [], rows = []\<rparr>
   \<and> len \<lparr>schema = [], rows = []\<rparr> = 0
   \<and> columns \<lparr>schema = [], rows = []\<rparr> = []
   \<and> json_normalize (JObj []) = Inr \<lparr>schema = [], rows = [[]]\<rparr>
   \<and> len \<lparr>schema = [], rows = [[]]\<rparr> = 1
   \<and> columns \<lparr>schema = [], rows = [[]]\<rparr> = []"
  by (simp add: normalize_list_def normalise_json_ordered_def dict_merge_def
      DataFrame_def union_keys_def len_def columns_def)

text \<open>
  C9 as stated fails on the empty object: the table has one row, not zero.
\<close>

theorem json_normalize_empty_object_counterexample:
  "json_normalize (JObj []) = Inr \<lparr>schema = [], rows = [[]]\<rparr>
   \<and> len \<lparr>schema = [], rows = [[]]\<rparr> \<noteq> 0"
  by (simp add: normalize_list_def normalise_json_ordered_def dict_merge_def
      DataFrame_def union_keys_def len_def)



text \<open>
  C10. In the histogram branch (no date column, at least one numeric column) the data of
  the histogram are \<^verbatim>\<open>df.dropna(subset=[metric])\<close>: a row of the table is in them
  exactly when its value under the picked numeric column is not missing, in the order
  of the table. Rows with a missing value are left out on this path as on the line-chart
  path.
\<close>

theorem histogram_dropna:
  assumes "detect_date_column df = None" "numeric_cols df \<noteq> []"
    "''dist_'' @ name \<notin> set (widget_keys st)"
  shows "\<exists>m data. picked_option st (''dist_'' @ name) (numeric_cols df) = Some m
      \<and> charts (page (fst (snd (render_dataset parse name df st)))) =
            charts (page st) @ [Bar_histogram m data]
      \<and> dropna df [m] = Inr data
      \<and> schema data = schema df
      \<and> rows data = filter (\<lambda>r. cell_at (columns df) r m \<noteq> Null) (rows df)
      \<and> (\<forall>r \<in> set (rows df). r \<in> set (rows data) \<longleftrightarrow> cell_at (columns df) r m \<noteq> Null)
      \<and> set (rows data) \<subseteq> set (rows df)"
proof -
  from assms(2) obtain m where m: "picked_option st (''dist_'' @ name) (numeric_cols df) = Some m"
      and mi: "m \<in> set (numeric_cols df)"
    using picked_option_in by blast
  let ?data = "\<lparr>schema = schema df, rows = filter (notna_at df [m]) (rows df)\<rparr>"
  from mi numeric_cols_subset have "set [m] \<subseteq> set (columns df)" by auto
  then have dn: "dropna df [m] = Inr ?data" by (rule dropna_ok)
  have c: "charts (page (fst (snd (render_dataset parse name df st)))) =
            charts (page st) @ [Bar_histogram m ?data]"
    by (simp add: render_dataset_histogram(2) [OF assms m] charts_append)
  have r: "rows ?data = filter (\<lambda>r. cell_at (columns df) r m \<noteq> Null) (rows df)"
    by (simp add: notna_at_single)
  then have i: "\<forall>r \<in> set (rows df). r \<in> set (rows ?data) \<longleftrightarrow> cell_at (columns df) r m \<noteq> Null"
    by simp
  from r have s: "set (rows ?data) \<subseteq> set (rows df)" by auto
  have "schema ?data = schema df" by simp
  with m c dn r i s show ?thesis by blast
qed

theorem histogram_dropna_witness:
  "detect_date_column ex_amounts = None \<and> numeric_cols ex_amounts \<noteq> []
   \<and> ''dist_'' @ ''loans'' \<notin> set (widget_keys ex_page)
   \<and> charts (page (fst (snd (render_dataset ex_parse ''loans'' ex_amounts ex_page)))) =
        [Bar_histogram ''amount''
           \<lparr>schema = [(''bank'', Object), (''amount'', Numeric)],
            rows = [[Text ''A'', Num 1], [Text ''C'', Num 3]]\<rparr>]"
proof -
  have k: "''dist_'' @ ''loans'' \<notin> set (widget_keys ex_page)" by (simp add: ex_page_def)
  have n: "numeric_cols ex_amounts \<noteq> []" by (simp add: ex_amounts_numeric)
  have p: "picked_option ex_page (''dist_'' @ ''loans'') (numeric_cols ex_amounts) = Some ''amount''"
    by (simp add: picked_option_def ex_amounts_numeric ex_page_def)
  from histogram_dropna [OF ex_amounts_detect n k, of ex_parse]
  obtain m data where
    m: "picked_option ex_page (''dist_'' @ ''loans'') (numeric_cols ex_amounts) = Some m" and
    c: "charts (page (fst (snd (render_dataset ex_parse ''loans'' ex_amounts ex_page)))) =
            charts (page ex_page) @ [Bar_histogram m data]" and
    s: "schema data = schema ex_amounts" and
    r: "rows data = filter (\<lambda>r. cell_at (columns ex_amounts) r m \<noteq> Null) (rows ex_amounts)"
    by blast
  from m p have me: "m = ''amount''" by simp
  from s r me have "data = \<lparr>schema = [(''bank'', Object), (''amount'', Numeric)],
            rows = [[Text ''A'', Num 1], [Text ''C'', Num 3]]\<rparr>"
    by (cases data) (simp add: ex_amounts_def columns_def cell_at_def)
  with c me have "charts (page (fst (snd (render_dataset ex_parse ''loans'' ex_amounts ex_page)))) =
        [Bar_histogram ''amount''
           \<lparr>schema = [(''bank'', Object), (''amount'', Numeric)],
            rows = [[Text ''A'', Num 1], [Text ''C'', Num 3]]\<rparr>]"
    by (simp add: ex_page_def)
  with ex_amounts_detect n k show ?thesis by simp
qed

text \<open>
  C7, as amended. With no date column, \<^verbatim>\<open>render_dataset\<close> leaves the table as it is.
  With a date column it assigns to that column, in place, its values read as datetimes
  (a value that does not parse becomes missing) and gives it the datetime dtype; the
  labels, their order, the number of rows and every other column stay as they are.
\<close>

theorem render_dataset_frame_effect:
  "(detect_date_column df = None \<longrightarrow> snd (snd (render_dataset parse name df st)) = df)
   \<and> (detect_date_column df = Some d \<longrightarrow>
        snd (snd (render_dataset parse name df st)) = assign_datetime parse df d
        \<and> columns (assign_datetime parse df d) = columns df
        \<and> len (assign_datetime parse df d) = len df
        \<and> schema (assign_datetime parse df d) =
            map (\<lambda>cd. if fst cd = d then (d, Datetime) else cd) (schema df)
        \<and> (\<forall>c. c \<noteq> d \<longrightarrow> column (assign_datetime parse df d) c = column df c)
        \<and> (wf_frame df \<longrightarrow>
             column (assign_datetime parse df d) d = to_datetime parse (column df d)))"
proof (intro conjI impI allI)
  assume "detect_date_column df = None"
  then show "snd (snd (render_dataset parse name df st)) = df"
    by (simp add: render_dataset_frame render_chart_frame)
next
  assume d: "detect_date_column df = Some d"
  then show "snd (snd (render_dataset parse name df st)) = assign_datetime parse df d"
    by (simp add: render_dataset_frame render_chart_frame)
  show "columns (assign_datetime parse df d) = columns df"
    by (rule columns_assign_datetime)
  show "len (assign_datetime parse df d) = len df"
    by (rule len_assign_datetime)
  show "schema (assign_datetime parse df d) =
            map (\<lambda>cd. if fst cd = d then (d, Datetime) else cd) (schema df)"
    by (rule schema_assign_datetime)
  show "column (assign_datetime parse df d) c = column df c" if "c \<noteq> d" for c
    using that by (rule column_assign_other)
  show "column (assign_datetime parse df d) d = to_datetime parse (column df d)"
    if "wf_frame df"
    using that detect_in_columns [OF d] by (rule column_assign_same)
qed

theorem render_dataset_frame_effect_witness:
  "detect_date_column ex_rates = Some ''date'' \<and> wf_frame ex_rates
   \<and> snd (snd (render_dataset ex_parse ''rates'' ex_rates ex_page)) =
       \<lparr>schema = [(''date'', Datetime), (''rate'', Numeric)],
        rows = [[Timestamp 1704067200, Num (55 / 2)], [Null, Num 28], [Timestamp 1704240000, Null]]\<rparr>
   \<and> column (assign_datetime ex_parse ex_rates ''date'') ''rate'' = column ex_rates ''rate''
   \<and> column (assign_datetime ex_parse ex_rates ''date'') ''date'' =
       [Timestamp 1704067200, Null, Timestamp 1704240000]
   \<and> detect_date_column ex_amounts = None
   \<and> snd (snd (render_dataset ex_parse ''loans'' ex_amounts ex_page)) = ex_amounts"
proof -
  note t = render_dataset_frame_effect [of ex_rates ex_parse "''rates''" ex_page "''date''"]
  from t ex_rates_detect
  have a: "snd (snd (render_dataset ex_parse ''rates'' ex_rates ex_page)) =
       \<lparr>schema = [(''date'', Datetime), (''rate'', Numeric)],
        rows = [[Timestamp 1704067200, Num (55 / 2)], [Null, Num 28], [Timestamp 1704240000, Null]]\<rparr>"
    by (simp add: ex_rates_assigned)
  from t ex_rates_detect
  have b: "column (assign_datetime ex_parse ex_rates ''date'') ''rate'' = column ex_rates ''rate''"
    by simp
  from t ex_rates_detect ex_rates_wf
  have "column (assign_datetime ex_parse ex_rates ''date'') ''date'' =
      to_datetime ex_parse (column ex_rates ''date'')"
    by simp
  then have c: "column (assign_datetime ex_parse ex_rates ''date'') ''date'' =
       [Timestamp 1704067200, Null, Timestamp 1704240000]"
    by (simp add: to_datetime_def column_def ex_rates_def columns_def cell_at_def ex_parse_def)
  from render_dataset_frame_effect [of ex_amounts ex_parse "''loans''" ex_page] ex_amounts_detect
  have e: "snd (snd (render_dataset ex_parse ''loans'' ex_amounts ex_page)) = ex_amounts"
    by simp
  from ex_rates_detect ex_rates_wf a b c ex_amounts_detect e show ?thesis by simp
qed

text \<open>
  C7 as stated fails on a table with a date column: after rendering, the table that was
  passed in holds timestamps, and a missing value for the text that did not parse, where
  it held text before.
\<close>

theorem render_dataset_mutates_counterexample:
  "snd (snd (render_dataset ex_parse ''rates'' ex_rates ex_page)) \<noteq> ex_rates
   \<and> column (snd (snd (render_dataset ex_parse ''rates'' ex_rates ex_page))) ''date'' =
       [Timestamp 1704067200, Null, Timestamp 1704240000]
   \<and> column ex_rates ''date'' = [Text ''2024-01-01'', Text ''n/a'', Text ''2024-01-03'']"
proof -
  have r: "snd (snd (render_dataset ex_parse ''rates'' ex_rates ex_page)) =
       \<lparr>schema = [(''date'', Datetime), (''rate'', Numeric)],
        rows = [[Timestamp 1704067200, Num (55 / 2)], [Null, Num 28], [Timestamp 1704240000, Null]]\<rparr>"
    by (simp add: render_dataset_frame render_chart_frame ex_rates_detect ex_rates_assigned)
  have a: "snd (snd (render_dataset ex_parse ''rates'' ex_rates ex_page)) \<noteq> ex_rates"
    unfolding r by (simp add: ex_rates_def)
  have b: "column (snd (snd (render_dataset ex_parse ''rates'' ex_rates ex_page))) ''date'' =
       [Timestamp 1704067200, Null, Timestamp 1704240000]"
    unfolding r by (simp add: column_def columns_def cell_at_def)
  have c: "column ex_rates ''date'' = [Text ''2024-01-01'', Text ''n/a'', Text ''2024-01-03'']"
    by (simp add: column_def columns_def cell_at_def ex_rates_def)
  from a b c show ?thesis by blast
qed




text \<open>
  C6, as amended. When \<^verbatim>\<open>response.json()\<close> fails to parse the body, \<^verbatim>\<open>fetch_data\<close>
  parses the raw text of the response with \<^verbatim>\<open>json.loads\<close>, and it raises the decode
  error exactly when both attempts fail. When the first attempt succeeds its result is
  the payload and there is no second attempt. A payload double-encoded as a JSON string
  is valid JSON: the first attempt returns the string, the string is not decoded again,
  and normalization refuses it with \<^verbatim>\<open>NotImplementedError\<close>.
\<close>

theorem fetch_data_parse:
  "(get url = Inr r \<and> raise_for_status r = None \<and> json_body r = Some payload \<longrightarrow>
      fetch_data loads get now url =
        (case json_normalize payload of Inl e \<Rightarrow> Inl e | Inr df \<Rightarrow> Inr (df, now)))
   \<and> (get url = Inr r \<and> raise_for_status r = None \<and> json_body r = None \<longrightarrow>
      fetch_data loads get now url =
        (case loads (body_text r) of
           None \<Rightarrow> Inl JSONDecodeError
         | Some document \<Rightarrow>
             (case json_normalize document of Inl e \<Rightarrow> Inl e | Inr df \<Rightarrow> Inr (df, now))))
   \<and> (fetch_data loads get now url = Inl JSONDecodeError \<longleftrightarrow>
        (\<exists>r. get url = Inr r \<and> raise_for_status r = None \<and> json_body r = None
             \<and> loads (body_text r) = None))
   \<and> (get url = Inr r \<and> raise_for_status r = None \<and> json_body r = Some (JStr s) \<longrightarrow>
        fetch_data loads get now url = Inl NotImplementedError)"
proof -
  have a: "get url = Inr r \<and> raise_for_status r = None \<and> json_body r = Some payload \<longrightarrow>
      fetch_data loads get now url =
        (case json_normalize payload of Inl e \<Rightarrow> Inl e | Inr df \<Rightarrow> Inr (df, now))"
    by (simp add: fetch_data_def)
  have b: "get url = Inr r \<and> raise_for_status r = None \<and> json_body r = None \<longrightarrow>
      fetch_data loads get now url =
        (case loads (body_text r) of
           None \<Rightarrow> Inl JSONDecodeError
         | Some document \<Rightarrow>
             (case json_normalize document of Inl e \<Rightarrow> Inl e | Inr df \<Rightarrow> Inr (df, now)))"
    by (simp add: fetch_data_def)
  note c = fetch_data_decode_error_iff [of loads get now url]
  have d: "get url = Inr r \<and> raise_for_status r = None \<and> json_body r = Some (JStr s) \<longrightarrow>
        fetch_data loads get now url = Inl NotImplementedError"
    by (simp add: fetch_data_def)
  from a b c d show ?thesis by blast
qed

theorem fetch_data_parse_witness:
  "raise_for_status ex_html = None \<and> json_body ex_html = None
   \<and> ex_loads (body_text ex_html) = None
   \<and> fetch_data ex_loads (\<lambda>url. Inr ex_html) 7 ''u'' = Inl JSONDecodeError
   \<and> raise_for_status ex_plain = None \<and> json_body ex_plain = Some ex_inner_doc
   \<and> fetch_data ex_loads (\<lambda>url. Inr ex_plain) 7 ''u'' =
       Inr (\<lparr>schema = [(''x'', Numeric)], rows = [[Num 1]]\<rparr>, 7)
   \<and> raise_for_status ex_double_encoded = None
   \<and> json_body ex_double_encoded = Some (JStr ex_inner_text)
   \<and> fetch_data ex_loads (\<lambda>url. Inr ex_double_encoded) 7 ''u'' = Inl NotImplementedError"
proof -
  have h1: "raise_for_status ex_html = None" by (simp add: raise_for_status_def ex_html_def)
  have h2: "json_body ex_html = None" by (simp add: ex_html_def)
  have h3: "ex_loads (body_text ex_html) = None"
    by (simp add: ex_loads_def ex_html_def ex_inner_text_def ex_outer_text_def)
  from fetch_data_parse [of "\<lambda>url. Inr ex_html" "''u''" ex_html JNull ex_loads 7 "[]"] h1 h2 h3
  have f1: "fetch_data ex_loads (\<lambda>url. Inr ex_html) 7 ''u'' = Inl JSONDecodeError"
    by simp
  have p1: "raise_for_status ex_plain = None" by (simp add: raise_for_status_def ex_plain_def)
  have p2: "json_body ex_plain = Some ex_inner_doc" by (simp add: ex_plain_def)
  have p3: "json_normalize ex_inner_doc = Inr \<lparr>schema = [(''x'', Numeric)], rows = [[Num 1]]\<rparr>"
    by (simp add: ex_inner_doc_def normalize_list_def normalise_json_ordered_def dict_merge_def
        DataFrame_def union_keys_def record_cell_def infer_dtype_def)
  from fetch_data_parse [of "\<lambda>url. Inr ex_plain" "''u''" ex_plain ex_inner_doc ex_loads 7 "[]"]
    p1 p2 p3
  have f2: "fetch_data ex_loads (\<lambda>url. Inr ex_plain) 7 ''u'' =
       Inr (\<lparr>schema = [(''x'', Numeric)], rows = [[Num 1]]\<rparr>, 7)"
    by simp
  have d1: "raise_for_status ex_double_encoded = None"
    by (simp add: raise_for_status_def ex_double_encoded_def)
  have d2: "json_body ex_double_encoded = Some (JStr ex_inner_text)"
    by (simp add: ex_double_encoded_def)
  from fetch_data_parse [of "\<lambda>url. Inr ex_double_encoded" "''u''" ex_double_encoded JNull
      ex_loads 7 ex_inner_text] d1 d2
  have f3: "fetch_data ex_loads (\<lambda>url. Inr ex_double_encoded) 7 ''u'' = Inl NotImplementedError"
    by simp
  from h1 h2 h3 f1 p1 p2 f2 d1 d2 f3 show ?thesis by blast
qed

text \<open>
  C6 as stated fails on a body that is one JSON string, the encoding of the text
  \<open>[{"x": 1}]\<close>: decoding that inner text would give a one-row table, and the fetch
  raises instead.
\<close>

theorem double_encoded_counterexample:
  "ex_loads (body_text ex_double_encoded) = json_body ex_double_encoded
   \<and> json_body ex_double_encoded = Some (JStr ex_inner_text)
   \<and> ex_loads ex_inner_text = Some ex_inner_doc
   \<and> json_normalize ex_inner_doc = Inr \<lparr>schema = [(''x'', Numeric)], rows = [[Num 1]]\<rparr>
   \<and> fetch_data ex_loads (\<lambda>url. Inr ex_double_encoded) 7 ''u'' = Inl NotImplementedError"
proof -
  have a: "ex_loads (body_text ex_double_encoded) = json_body ex_double_encoded"
    by (simp add: ex_loads_def ex_double_encoded_def ex_inner_text_def ex_outer_text_def)
  have b: "json_body ex_double_encoded = Some (JStr ex_inner_text)"
    by (simp add: ex_double_encoded_def)
  have c: "ex_loads ex_inner_text = Some ex_inner_doc" by (simp add: ex_loads_def)
  have d: "json_normalize ex_inner_doc = Inr \<lparr>schema = [(''x'', Numeric)], rows = [[Num 1]]\<rparr>"
    by (simp add: ex_inner_doc_def normalize_list_def normalise_json_ordered_def dict_merge_def
        DataFrame_def union_keys_def record_cell_def infer_dtype_def)
  have e: "fetch_data ex_loads (\<lambda>url. Inr ex_double_encoded) 7 ''u'' = Inl NotImplementedError"
    by (simp add: fetch_data_def raise_for_status_def ex_double_encoded_def)
  from a b c d e show ?thesis by blast
qed






end
